theory Spec2Isabelle
  imports Main "HOL-Library.Word"
begin

section \<open>Adapters of py4dgeo.cpp over PCL and nanoflann\<close>

text \<open>
  The translation unit \<^verbatim>\<open>src/py4dgeo.cpp\<close> defines two adapter classes,
  \<^verbatim>\<open>PCLPointCloud\<close> and \<^verbatim>\<open>NFPointCloud2\<close>. The search libraries they wrap are
  not part of the repository: what a wrapped operation computes, and whether it throws,
  is a parameter of the model. Everything the adapters do themselves (reading the
  caller's buffer, filling the cloud, choosing the search class, dereferencing the stored
  pointer, squaring the radius and converting the square to float) is written out.
\<close>

subsection \<open>Values, memory and outcomes\<close>

text \<open>
  \<^verbatim>\<open>std::size_t\<close> is a 64-bit unsigned word, as on the platforms PCL is built for, and
  \<^verbatim>\<open>int\<close> a 32-bit word (the adapters only pass \<^verbatim>\<open>int\<close> values on). The types
  \<^verbatim>\<open>float\<close> and \<^verbatim>\<open>double\<close> are the type variables \<open>'f\<close> and \<open>'d\<close>: the adapters copy
  floats, need the float zero of a default-constructed point, the double literal
  \<^verbatim>\<open>128.0\<close>, one double multiplication and one conversion of a double to float, and
  nothing else. Only the syntactic classes \<open>zero\<close>, \<open>numeral\<close> and \<open>times\<close> are asked of
  the two types, and the conversion is a parameter (no algebraic law is used, and IEEE
  arithmetic with its rounding conversion is an instance).
\<close>

type_synonym size_t = "64 word"
type_synonym c_int = "32 word"

text \<open>
  A \<^verbatim>\<open>float*\<close> is the address of a float cell; the memory maps the readable cells to
  their contents. Reading a cell that is not readable is undefined behaviour.
\<close>

type_synonym addr = nat
type_synonym 'f heap = "addr \<Rightarrow> 'f option"

text \<open>\<^verbatim>\<open>ptr[k]\<close> for a \<^verbatim>\<open>std::size_t\<close> index \<open>k\<close>.\<close>

definition load :: "'f heap \<Rightarrow> addr \<Rightarrow> size_t \<Rightarrow> 'f option" where
  "load h ptr k = h (ptr + unat k)"

text \<open>
  How an operation can fail: an exception \<open>e\<close> thrown inside a wrapped library leaves the
  operation (\<open>Raised e\<close>), or the operation has undefined behaviour, by dereferencing a
  null pointer or by reading outside the readable memory.
\<close>

datatype 'e failure = Raised 'e | NullDereference | InvalidRead

text \<open>A call into a wrapped library, made outside any \<^verbatim>\<open>try\<close> block.\<close>

definition call :: "'e + 'a \<Rightarrow> 'e failure + 'a" where
  "call r = (case r of Inl e \<Rightarrow> Inl (Raised e) | Inr v \<Rightarrow> Inr v)"

subsection \<open>The PCL side\<close>

datatype 'f PointXYZ = PointXYZ 'f 'f 'f

type_synonym 'f PointCloud = "'f PointXYZ list"

text \<open>
  Modelled from the spec: the enumeration \<^verbatim>\<open>SearchStrategy\<close> is declared in
  \<^verbatim>\<open>py4dgeo/py4dgeo.hpp\<close>, which is not among the sources. Its three enumerators are
  the ones the code compares with; \<open>unlisted v\<close> stands for a value of the underlying
  integer type that is none of them (a C++ enumeration can hold one after a cast).
\<close>

datatype SearchStrategy = kdtree | octree | bruteforce | unlisted int

text \<open>
  A \<^verbatim>\<open>pcl::search::Search<pcl::PointXYZ>\<close> object: the class it was created as (with the
  constructor's argument) and the input cloud it was given, if any.
\<close>

datatype 'd SearchClass = KdTree | Octree 'd | BruteForce

record ('f, 'd) Search =
  search_class :: "'d SearchClass"
  input_cloud :: "'f PointCloud option"

text \<open>
  The wrapped library: whether \<^verbatim>\<open>new pcl::PointCloud<pcl::PointXYZ>()\<close>, \<^verbatim>\<open>resize\<close> of a
  cloud and \<^verbatim>\<open>setInputCloud\<close> of a search object throw, and which exception; the state in
  which a \<^verbatim>\<open>setInputCloud\<close> that throws leaves the search object; and what
  \<^verbatim>\<open>radiusSearch\<close> does with the query point, the radius and the two output vectors
  (their contents before the call go in, the returned integer and their contents after it
  come out).
\<close>

record ('f, 'd, 'e) pcl =
  PointCloud_throws :: "'e option"
  resize_throws :: "'f PointCloud \<Rightarrow> size_t \<Rightarrow> 'e option"
  setInputCloud_throws :: "('f, 'd) Search \<Rightarrow> 'f PointCloud \<Rightarrow> 'e option"
  setInputCloud_leaves :: "('f, 'd) Search \<Rightarrow> 'f PointCloud \<Rightarrow> ('f, 'd) Search"
  radiusSearch ::
    "('f, 'd) Search \<Rightarrow> 'f PointXYZ \<Rightarrow> 'd \<Rightarrow> c_int list \<Rightarrow> 'f list
      \<Rightarrow> 'e + (c_int \<times> c_int list \<times> 'f list)"

text \<open>
  \<^verbatim>\<open>new pcl::PointCloud<pcl::PointXYZ>()\<close> is an empty cloud; \<^verbatim>\<open>resize(n)\<close> cuts a cloud
  down to \<open>n\<close> points or fills it up to \<open>n\<close> points with default-constructed points, whose
  coordinates are zero (it throws \<^verbatim>\<open>std::length_error\<close> when \<open>n\<close> is more than the container
  can hold).
\<close>

definition new_PointCloud :: "('f, 'd, 'e) pcl \<Rightarrow> 'e + 'f PointCloud" where
  "new_PointCloud lib = (case PointCloud_throws lib of Some e \<Rightarrow> Inl e | None \<Rightarrow> Inr [])"

definition resize ::
  "('f::zero, 'd, 'e) pcl \<Rightarrow> 'f PointCloud \<Rightarrow> size_t \<Rightarrow> 'e + 'f PointCloud" where
  "resize lib cloud n =
     (case resize_throws lib cloud n of
        Some e \<Rightarrow> Inl e
      | None \<Rightarrow> Inr (take (unat n) cloud @ replicate (unat n - length cloud) (PointXYZ 0 0 0)))"

definition setInputCloud ::
  "('f, 'd, 'e) pcl \<Rightarrow> ('f, 'd) Search \<Rightarrow> 'f PointCloud \<Rightarrow> 'e + ('f, 'd) Search" where
  "setInputCloud lib s c =
     (case setInputCloud_throws lib s c of
        Some e \<Rightarrow> Inl e
      | None \<Rightarrow> Inr (s\<lparr>input_cloud := Some c\<rparr>))"

text \<open>
  Modelled from the spec: the class \<^verbatim>\<open>PCLPointCloud\<close> is declared in
  \<^verbatim>\<open>py4dgeo/py4dgeo.hpp\<close>, which is not among the sources. Its members are the two the
  code uses: \<^verbatim>\<open>_cloud\<close>, the cloud the constructor allocates and fills, and \<^verbatim>\<open>_search\<close>, a
  smart pointer (the code calls \<^verbatim>\<open>reset\<close> on it) to a search object, null when \<open>None\<close>.
  The cloud is shared with the search object that is given it, and nothing in the code
  changes it after the constructor, so both hold it by value here.
\<close>

record ('f, 'd) PCLPointCloud =
  pcl_cloud :: "'f PointCloud"
  pcl_search :: "('f, 'd) Search option"

text \<open>
  The constructor's loop
  \<^verbatim>\<open>for (std::size_t i = 0; i < n; ++i) { (*_cloud)[i] = PointXYZ(ptr[3*i], ptr[3*i+1], ptr[3*i+2]); }\<close>
  with the index arithmetic in \<^verbatim>\<open>std::size_t\<close>.
\<close>

function PCLPointCloud_loop ::
  "'f heap \<Rightarrow> addr \<Rightarrow> size_t \<Rightarrow> size_t \<Rightarrow> 'f PointCloud \<Rightarrow> 'e failure + 'f PointCloud" where
  "PCLPointCloud_loop h ptr n i cloud =
     (if i < n then
        (case load h ptr (3 * i) of
           None \<Rightarrow> Inl InvalidRead
         | Some a \<Rightarrow>
            (case load h ptr (3 * i + 1) of
               None \<Rightarrow> Inl InvalidRead
             | Some b \<Rightarrow>
                (case load h ptr (3 * i + 2) of
                   None \<Rightarrow> Inl InvalidRead
                 | Some c \<Rightarrow>
                     PCLPointCloud_loop h ptr n (i + 1) (cloud[unat i := PointXYZ a b c]))))
      else Inr cloud)"
  by pat_completeness auto
termination
proof (relation "measure (\<lambda>(h, ptr, n, i, cloud). unat n - unat i)")
  show "wf (measure (\<lambda>(h, ptr, n, i, cloud). unat n - unat i))"
    by simp
next
  fix h :: "'f heap" and ptr :: addr and n i :: size_t and cloud :: "'f PointCloud"
    and a b c :: 'f
  assume lt: "i < n"
  have "1 + i \<noteq> 0"
    using lt by (metis add_left_cancel add_neg_numeral_special(7)
        ordering_top.extremum_strict word_order.ordering_top_axioms)
  then have "unat (i + 1) = Suc (unat i)"
    by (simp add: add.commute unatSuc)
  moreover have "unat i < unat n"
    using lt by (simp add: word_less_nat_alt)
  ultimately show "((h, ptr, n, i + 1, cloud[unat i := PointXYZ a b c]), (h, ptr, n, i, cloud))
      \<in> measure (\<lambda>(h, ptr, n, i, cloud). unat n - unat i)"
    by simp
qed

declare PCLPointCloud_loop.simps [simp del]

text \<open>
  \<^verbatim>\<open>PCLPointCloud::PCLPointCloud(const float* ptr, std::size_t n)\<close>: a new cloud
  (line 13), resized to \<open>n\<close> points (line 15), then filled by the loop. The two calls
  into the library are outside any \<^verbatim>\<open>try\<close> block: an exception of either leaves the
  constructor, before any read of the buffer, and no object is constructed. The
  constructor's initialiser list does not mention \<^verbatim>\<open>_search\<close>, which is
  default-constructed: the null pointer.
\<close>

definition PCLPointCloud ::
  "('f::zero, 'd, 'e) pcl \<Rightarrow> 'f heap \<Rightarrow> addr \<Rightarrow> size_t \<Rightarrow> 'e failure + ('f, 'd) PCLPointCloud" where
  "PCLPointCloud lib h ptr n =
     (case call (new_PointCloud lib) of
        Inl e \<Rightarrow> Inl e
      | Inr new_cloud \<Rightarrow>
         (case call (resize lib new_cloud n) of
            Inl e \<Rightarrow> Inl e
          | Inr resized \<Rightarrow>
             (case PCLPointCloud_loop h ptr n 0 resized of
                Inl e \<Rightarrow> Inl e
              | Inr cloud \<Rightarrow> Inr \<lparr>pcl_cloud = cloud, pcl_search = None\<rparr>)))"

text \<open>
  \<^verbatim>\<open>PCLPointCloud::build_tree(SearchStrategy strategy)\<close> starts with three \<^verbatim>\<open>if\<close>
  statements in a row, each of which resets \<^verbatim>\<open>_search\<close> to a new search object when the
  strategy is its enumerator. \<open>PCL_build_tree_reset\<close> is what \<^verbatim>\<open>_search\<close> holds after
  the three.
\<close>

definition PCL_build_tree_reset ::
  "('f, 'd::numeral) PCLPointCloud \<Rightarrow> SearchStrategy \<Rightarrow> ('f, 'd) Search option" where
  "PCL_build_tree_reset obj strategy =
     (let s0 = pcl_search obj;
          s1 = (if strategy = kdtree
                then Some \<lparr>search_class = KdTree, input_cloud = None\<rparr> else s0);
          s2 = (if strategy = octree
                then Some \<lparr>search_class = Octree 128, input_cloud = None\<rparr> else s1);
          s3 = (if strategy = bruteforce
                then Some \<lparr>search_class = BruteForce, input_cloud = None\<rparr> else s2)
      in s3)"

text \<open>
  The last statement, \<^verbatim>\<open>_search->setInputCloud(_cloud)\<close>, goes through whatever
  \<^verbatim>\<open>_search\<close> holds then. \<open>PCL_build_tree\<close> is the outcome of the call: the adapter when
  the call returns, the failure otherwise.
\<close>

definition PCL_build_tree ::
  "('f, 'd::numeral, 'e) pcl \<Rightarrow> ('f, 'd) PCLPointCloud \<Rightarrow> SearchStrategy
    \<Rightarrow> 'e failure + ('f, 'd) PCLPointCloud" where
  "PCL_build_tree lib obj strategy =
     (case PCL_build_tree_reset obj strategy of
        None \<Rightarrow> Inl NullDereference
      | Some s \<Rightarrow>
         (case call (setInputCloud lib s (pcl_cloud obj)) of
            Inl e \<Rightarrow> Inl e
          | Inr s' \<Rightarrow> Inr (obj\<lparr>pcl_search := Some s'\<rparr>)))"


text \<open>
  \<^verbatim>\<open>PCLPointCloud::radius_search(p, r, indices, dist)\<close>:
  \<^verbatim>\<open>return _search->radiusSearch(p, r, indices, dist);\<close>
\<close>

definition PCL_radius_search ::
  "('f, 'd, 'e) pcl \<Rightarrow> ('f, 'd) PCLPointCloud \<Rightarrow> 'f PointXYZ \<Rightarrow> 'd \<Rightarrow> c_int list \<Rightarrow> 'f list
    \<Rightarrow> 'e failure + (c_int \<times> c_int list \<times> 'f list)" where
  "PCL_radius_search lib obj p r indices dist =
     (case pcl_search obj of
        None \<Rightarrow> Inl NullDereference
      | Some s \<Rightarrow> call (radiusSearch lib s p r indices dist))"

subsection \<open>The nanoflann side\<close>

text \<open>
  The wrapped library, with \<open>'idx\<close> the state of a \<^verbatim>\<open>KDTree\<close> index object and \<open>'p\<close> the
  type \<^verbatim>\<open>nanoflann::SearchParams\<close>. The index is constructed from the dimension, a
  reference to the adapter (through which the library reaches the adapter's pointer and
  count) and the parameters made from the leaf size. Every operation of the library
  reads the memory as it is when the operation runs, \<^verbatim>\<open>radiusSearch\<close> also through the
  query pointer. \<^verbatim>\<open>buildIndex_leaves\<close> is the state in which a \<^verbatim>\<open>buildIndex\<close> that throws
  leaves the index, and \<^verbatim>\<open>SearchParams\<close> the default-constructed parameter object.

  The threshold of \<^verbatim>\<open>radiusSearch\<close> is a float: the library declares it as
  \<^verbatim>\<open>const DistanceType&\<close> and the result vector as pairs of an index and a
  \<^verbatim>\<open>DistanceType\<close>, and the adapter's \<^verbatim>\<open>result\<close> is a
  \<^verbatim>\<open>std::vector<std::pair<std::size_t, float>>\<close>.
\<close>

record ('f, 'd, 'e, 'idx, 'p) nanoflann =
  KDTree :: "'f heap \<Rightarrow> nat \<Rightarrow> addr \<times> size_t \<Rightarrow> c_int \<Rightarrow> 'e + 'idx"
  buildIndex :: "'f heap \<Rightarrow> 'idx \<Rightarrow> 'e + 'idx"
  buildIndex_leaves :: "'f heap \<Rightarrow> 'idx \<Rightarrow> 'idx"
  SearchParams :: 'p
  nf_radiusSearch ::
    "'f heap \<Rightarrow> 'idx \<Rightarrow> addr \<Rightarrow> 'f \<Rightarrow> (size_t \<times> 'f) list \<Rightarrow> 'p
      \<Rightarrow> 'e + (size_t \<times> (size_t \<times> 'f) list)"

text \<open>
  Modelled from the spec: the class \<^verbatim>\<open>NFPointCloud2\<close> is declared in
  \<^verbatim>\<open>py4dgeo/py4dgeo.hpp\<close>, which is not among the sources. Its members are the three
  the code uses: the pointer \<^verbatim>\<open>data\<close>, the count \<^verbatim>\<open>n\<close> and \<^verbatim>\<open>_search\<close>, a shared pointer
  to the index, null when \<open>None\<close>. No float is a member.
\<close>

record 'idx NFPointCloud2 =
  nf_data :: addr
  nf_n :: size_t
  nf_search :: "'idx option"

text \<open>\<^verbatim>\<open>NFPointCloud2::NFPointCloud2(float* ptr, std::size_t n) : data(ptr), n(n) {}\<close>\<close>

definition NFPointCloud2 :: "addr \<Rightarrow> size_t \<Rightarrow> 'idx NFPointCloud2" where
  "NFPointCloud2 ptr n = \<lparr>nf_data = ptr, nf_n = n, nf_search = None\<rparr>"

text \<open>
  \<^verbatim>\<open>NFPointCloud2::build_tree(int leaf)\<close>: the index is made over \<^verbatim>\<open>*this\<close> with dimension
  3 and stored in \<^verbatim>\<open>_search\<close>, then built through the pointer just stored (which
  \<^verbatim>\<open>std::make_shared\<close> never leaves null). \<open>NF_build_tree\<close> is the outcome of the call.
\<close>

definition NF_build_tree ::
  "('f, 'd, 'e, 'idx, 'p) nanoflann \<Rightarrow> 'f heap \<Rightarrow> 'idx NFPointCloud2 \<Rightarrow> c_int
    \<Rightarrow> 'e failure + 'idx NFPointCloud2" where
  "NF_build_tree lib h obj leaf =
     (case call (KDTree lib h 3 (nf_data obj, nf_n obj) leaf) of
        Inl e \<Rightarrow> Inl e
      | Inr idx \<Rightarrow>
         (case call (buildIndex lib h idx) of
            Inl e \<Rightarrow> Inl e
          | Inr idx' \<Rightarrow> Inr (obj\<lparr>nf_search := Some idx'\<rparr>)))"


text \<open>
  \<^verbatim>\<open>NFPointCloud2::radius_search(query, radius, result)\<close>:
  \<^verbatim>\<open>nanoflann::SearchParams params; return _search->radiusSearch(query, radius * radius, result, params);\<close>
  The product is a double (\<^verbatim>\<open>radius\<close> is a \<^verbatim>\<open>const double&\<close>) and the parameter it
  initialises a float, so the call converts it: \<open>to_float\<close> is that implicit conversion
  of the language (the nearest float, infinity beyond the floats' range).
\<close>

definition NF_radius_search ::
  "('d::times \<Rightarrow> 'f) \<Rightarrow> ('f, 'd, 'e, 'idx, 'p) nanoflann \<Rightarrow> 'f heap \<Rightarrow> 'idx NFPointCloud2
    \<Rightarrow> addr \<Rightarrow> 'd \<Rightarrow> (size_t \<times> 'f) list
    \<Rightarrow> 'e failure + (size_t \<times> (size_t \<times> 'f) list)" where
  "NF_radius_search to_float lib h obj query radius result =
     (case nf_search obj of
        None \<Rightarrow> Inl NullDereference
      | Some idx \<Rightarrow>
          call (nf_radiusSearch lib h idx query (to_float (radius * radius)) result
            (SearchParams lib)))"

subsection \<open>Vocabulary of the properties\<close>

text \<open>
  The point the buffer at \<open>ptr\<close> describes at position \<open>i\<close>: the three floats
  \<^verbatim>\<open>ptr[3*i]\<close>, \<^verbatim>\<open>ptr[3*i+1]\<close>, \<^verbatim>\<open>ptr[3*i+2]\<close>, when all three cells are readable.
\<close>

definition coords :: "'f heap \<Rightarrow> addr \<Rightarrow> size_t \<Rightarrow> 'f PointXYZ option" where
  "coords h ptr i =
     (case load h ptr (3 * i) of
        None \<Rightarrow> None
      | Some a \<Rightarrow>
         (case load h ptr (3 * i + 1) of
            None \<Rightarrow> None
          | Some b \<Rightarrow>
             (case load h ptr (3 * i + 2) of
                None \<Rightarrow> None
              | Some c \<Rightarrow> Some (PointXYZ a b c))))"

text \<open>The buffer at \<open>ptr\<close> holds \<open>n\<close> points: every cell of theirs is readable.\<close>

definition readable :: "'f heap \<Rightarrow> addr \<Rightarrow> size_t \<Rightarrow> bool" where
  "readable h ptr n = (\<forall>i<n. coords h ptr i \<noteq> None)"

text \<open>The \<open>n\<close> points of a readable buffer, in order.\<close>

definition points :: "'f heap \<Rightarrow> addr \<Rightarrow> size_t \<Rightarrow> 'f PointCloud" where
  "points h ptr n = map (\<lambda>j. the (coords h ptr (of_nat j))) [0..<unat n]"

text \<open>The cells of the buffer: the addresses the constructor's loop reads.\<close>

definition cells :: "addr \<Rightarrow> size_t \<Rightarrow> addr set" where
  "cells ptr n =
     (\<Union>i\<in>{i. i < n}. {ptr + unat (3 * i), ptr + unat (3 * i + 1), ptr + unat (3 * i + 2)})"

text \<open>Two memories hold the same contents at every address of a set.\<close>

definition agree_on :: "addr set \<Rightarrow> 'f heap \<Rightarrow> 'f heap \<Rightarrow> bool" where
  "agree_on A h h2 = (\<forall>a\<in>A. h a = h2 a)"



subsection \<open>Stand-ins for the wrapped libraries\<close>

text \<open>
  To run the adapters on concrete inputs, the parameters that stand for the wrapped
  libraries are instantiated with exhaustive searches over integer coordinates: a point
  is reported when its squared distance to the query is at most the threshold. The PCL
  stand-in takes a radius and squares it itself, the nanoflann stand-in takes the squared
  threshold and reads the points and the query from the memory it is given. Both can
  throw: the PCL stand-in on a \<^verbatim>\<open>resize\<close> to more than \<open>2 ^ 59\<close> points, on an empty
  input cloud and on a negative radius, the nanoflann stand-in on a leaf size that is not
  positive and on a query or a point it cannot read. An operation that throws leaves its
  object as it was. No theorem below depends on them, only the examples.
\<close>

fun sqdist :: "int PointXYZ \<Rightarrow> int PointXYZ \<Rightarrow> int" where
  "sqdist (PointXYZ a b c) (PointXYZ a' b' c') =
     (a - a') * (a - a') + (b - b') * (b - b') + (c - c') * (c - c')"

definition within :: "int PointXYZ \<Rightarrow> int \<Rightarrow> int PointCloud \<Rightarrow> nat list" where
  "within p t c = filter (\<lambda>j. sqdist p (c ! j) \<le> t) [0..<length c]"

definition stub_pcl :: "(int, int, string) pcl" where
  "stub_pcl =
     \<lparr>PointCloud_throws = None,
      resize_throws = (\<lambda>c n. if 2 ^ 59 < n then Some ''length_error'' else None),
      setInputCloud_throws = (\<lambda>s c. if c = [] then Some ''empty cloud'' else None),
      setInputCloud_leaves = (\<lambda>s c. s),
      radiusSearch = (\<lambda>s p r indices dist.
        case input_cloud s of
          None \<Rightarrow> Inl ''no input cloud''
        | Some c \<Rightarrow>
            if r < 0 then Inl ''negative radius''
            else Inr (of_nat (length (within p (r * r) c)),
                      map of_nat (within p (r * r) c),
                      map (\<lambda>j. sqdist p (c ! j)) (within p (r * r) c)))\<rparr>"

definition stub_nanoflann :: "(int, int, string, addr \<times> size_t, unit) nanoflann" where
  "stub_nanoflann =
     \<lparr>KDTree = (\<lambda>h dim dataset leaf.
        if dim = 3 \<and> 0 <s leaf then Inr dataset else Inl ''bad parameters''),
      buildIndex = (\<lambda>h idx.
        if readable h (fst idx) (snd idx) then Inr idx else Inl ''unreadable data''),
      buildIndex_leaves = (\<lambda>h idx. idx),
      SearchParams = (),
      nf_radiusSearch = (\<lambda>h idx query t result params.
        case coords h query 0 of
          None \<Rightarrow> Inl ''unreadable query''
        | Some p \<Rightarrow>
           (case those (map (\<lambda>j. coords h (fst idx) (of_nat j)) [0..<unat (snd idx)]) of
              None \<Rightarrow> Inl ''unreadable data''
            | Some c \<Rightarrow>
                Inr (of_nat (length (within p t c)),
                     map (\<lambda>j. (of_nat j, sqdist p (c ! j))) (within p t c))))\<rparr>"

text \<open>
  The conversion of a double to float on the doubles that are whole numbers, which stand
  for themselves: the result keeps 24 significant bits and is the nearest such number,
  the one with the even 24-bit mantissa when two are equally near. The integers stand
  for the doubles of magnitude up to \<open>2 ^ 53\<close>: there every whole number is a double, the
  product of two doubles is the product of the integers as long as it stays in that
  range, and the conversion to float does not overflow. \<open>excess_bits a\<close> is the number of
  low bits of \<open>a\<close> beyond the 24.
\<close>

fun excess_bits :: "nat \<Rightarrow> nat" where
  "excess_bits a = (if a < 2 ^ 24 then 0 else Suc (excess_bits (a div 2)))"

declare excess_bits.simps [simp del]

definition stub_to_float :: "int \<Rightarrow> int" where
  "stub_to_float x =
     (let a = nat \<bar>x\<bar>;
          e = excess_bits a;
          q = a div 2 ^ e;
          r = a mod 2 ^ e;
          q' = (if 2 ^ e < 2 * r \<or> (2 ^ e = 2 * r \<and> odd q) then Suc q else q)
      in sgn x * int (q' * 2 ^ e))"

text \<open>
  A memory of twelve readable cells: three points at address 0 and a query point at
  address 9.
\<close>

definition example_heap :: "int heap" where
  "example_heap a =
     (if a < 12 then Some ([0, 0, 0, 3, 0, 0, 0, 5, 0, 1, 0, 0] ! a) else None)"

text \<open>
  The cloud of the three points, the adapter the constructor makes of them, a search
  object that was given the cloud, the adapter after \<^verbatim>\<open>build_tree\<close>, the adapter the
  constructor makes of no point at all, that adapter after a \<^verbatim>\<open>build_tree\<close> whose
  \<^verbatim>\<open>setInputCloud\<close> threw, and the nanoflann adapter after \<^verbatim>\<open>build_tree\<close>.
\<close>

definition example_cloud :: "int PointCloud" where
  "example_cloud = [PointXYZ 0 0 0, PointXYZ 3 0 0, PointXYZ 0 5 0]"

definition example_fresh :: "(int, int) PCLPointCloud" where
  "example_fresh = \<lparr>pcl_cloud = example_cloud, pcl_search = None\<rparr>"

definition example_search :: "int SearchClass \<Rightarrow> (int, int) Search" where
  "example_search cls = \<lparr>search_class = cls, input_cloud = Some example_cloud\<rparr>"

definition example_built :: "int SearchClass \<Rightarrow> (int, int) PCLPointCloud" where
  "example_built cls = \<lparr>pcl_cloud = example_cloud, pcl_search = Some (example_search cls)\<rparr>"

definition example_empty :: "(int, int) PCLPointCloud" where
  "example_empty = \<lparr>pcl_cloud = [], pcl_search = None\<rparr>"


definition example_nf :: "(addr \<times> size_t) NFPointCloud2" where
  "example_nf = \<lparr>nf_data = 0, nf_n = 3, nf_search = Some (0, 3)\<rparr>"



subsection \<open>Lemmas on the constructor's loop\<close>

lemma unat_succ:
  fixes i n :: "'a::len word"
  assumes "i < n"
  shows "unat (i + 1) = Suc (unat i)"
proof -
  have "1 + i \<noteq> 0"
    using assms by (metis add_left_cancel add_neg_numeral_special(7)
        ordering_top.extremum_strict word_order.ordering_top_axioms)
  then show ?thesis
    by (simp add: add.commute unatSuc)
qed

lemma loop_step:
  assumes "i < n" and "coords h ptr i = Some p"
  shows "PCLPointCloud_loop h ptr n i cloud =
    PCLPointCloud_loop h ptr n (i + 1) (cloud[unat i := p])"
  using assms by (subst PCLPointCloud_loop.simps) (auto simp: coords_def split: option.splits)

lemma loop_stop:
  assumes "\<not> i < n"
  shows "PCLPointCloud_loop h ptr n i cloud = Inr cloud"
  using assms by (subst PCLPointCloud_loop.simps) simp

lemma loop_fail:
  assumes "i < n" and "coords h ptr i = None"
  shows "PCLPointCloud_loop h ptr n i cloud = Inl InvalidRead"
  using assms by (subst PCLPointCloud_loop.simps) (auto simp: coords_def split: option.splits)

text \<open>
  The loop invariant: entries below \<open>i\<close> are as the loop found them, and the loop writes
  the buffer's points into the entries from \<open>i\<close> on.
\<close>

lemma loop_filled:
  fixes cloud :: "'f PointCloud"
  assumes "\<forall>j. i \<le> j \<and> j < n \<longrightarrow> coords h ptr j \<noteq> None"
    and "i \<le> n" and "length cloud = unat n"
  shows "(PCLPointCloud_loop h ptr n i cloud :: 'e failure + 'f PointCloud) =
    Inr (take (unat i) cloud @ map (\<lambda>j. the (coords h ptr (of_nat j))) [unat i..<unat n])"
  using assms
proof (induction "unat n - unat i" arbitrary: i cloud)
  case 0
  then have "unat i = unat n"
    by (simp add: word_le_nat_alt)
  then have "i = n"
    by (simp add: word_unat_eq_iff)
  then show ?case
    using "0.prems"(3) by (simp add: loop_stop)
next
  case (Suc d)
  from Suc.hyps(2) have ilt: "unat i < unat n"
    by simp
  then have lt: "i < n"
    by (simp add: word_less_nat_alt)
  from Suc.prems(1) lt have "coords h ptr i \<noteq> None"
    by simp
  then obtain p where p: "coords h ptr i = Some p"
    by blast
  have suc: "unat (i + 1) = Suc (unat i)"
    using lt by (rule unat_succ)
  have d: "d = unat n - unat (i + 1)"
    using Suc.hyps(2) suc by simp
  have le: "i + 1 \<le> n"
    using lt by (rule inc_le)
  have "i \<le> i + 1"
    using suc by (simp add: word_le_nat_alt)
  then have rest: "\<forall>j. i + 1 \<le> j \<and> j < n \<longrightarrow> coords h ptr j \<noteq> None"
    using Suc.prems(1) by (meson order_trans)
  have len: "length (cloud[unat i := p]) = unat n"
    using Suc.prems(3) by simp
  have step: "(PCLPointCloud_loop h ptr n i cloud :: 'e failure + 'f PointCloud)
      = PCLPointCloud_loop h ptr n (i + 1) (cloud[unat i := p])"
    using lt p by (rule loop_step)
  have ih: "(PCLPointCloud_loop h ptr n (i + 1) (cloud[unat i := p]) :: 'e failure + 'f PointCloud)
      = Inr (take (unat (i + 1)) (cloud[unat i := p]) @
      map (\<lambda>j. the (coords h ptr (of_nat j))) [unat (i + 1)..<unat n])"
    by (rule Suc.hyps(1) [OF d rest le len])
  have tk: "take (unat (i + 1)) (cloud[unat i := p]) = take (unat i) cloud @ [p]"
    using ilt Suc.prems(3) by (simp add: suc take_Suc_conv_app_nth)
  have up: "[unat i..<unat n] = unat i # [unat (i + 1)..<unat n]"
    using ilt by (simp add: suc upt_conv_Cons)
  show ?case
    by (simp add: step ih tk up p)
qed

text \<open>Conversely, a loop that returns has read every point from \<open>i\<close> on.\<close>

lemma loop_Inr_readable:
  assumes "(PCLPointCloud_loop h ptr n i cloud :: 'e failure + 'f PointCloud) = Inr c"
    and "i \<le> j" and "j < n"
  shows "coords h ptr j \<noteq> None"
  using assms
proof (induction "unat n - unat i" arbitrary: i cloud)
  case 0
  then show ?case
    by (simp add: word_le_nat_alt word_less_nat_alt)
next
  case (Suc d)
  from Suc.hyps(2) have ilt: "unat i < unat n"
    by simp
  then have lt: "i < n"
    by (simp add: word_less_nat_alt)
  have suc: "unat (i + 1) = Suc (unat i)"
    using lt by (rule unat_succ)
  have d: "d = unat n - unat (i + 1)"
    using Suc.hyps(2) suc by simp
  show ?case
  proof (cases "coords h ptr i")
    case None
    with lt Suc.prems(1) show ?thesis
      by (simp add: loop_fail)
  next
    case (Some p)
    show ?thesis
    proof (cases "j = i")
      case True
      with Some show ?thesis by simp
    next
      case False
      with Suc.prems(2) have "unat i < unat j"
        by (simp add: word_le_nat_alt word_unat_eq_iff)
      then have le: "i + 1 \<le> j"
        by (simp add: word_le_nat_alt suc)
      have "(PCLPointCloud_loop h ptr n (i + 1) (cloud[unat i := p])
          :: 'e failure + 'f PointCloud) = Inr c"
        using Suc.prems(1) by (simp add: loop_step [OF lt Some])
      then show ?thesis
        using le Suc.prems(3) by (rule Suc.hyps(1) [OF d])
    qed
  qed
qed

text \<open>The only failure of the loop is a read outside the readable memory.\<close>

lemma loop_outcome:
  "(PCLPointCloud_loop h ptr n i cloud :: 'e failure + 'f PointCloud) = Inl e
    \<Longrightarrow> e = InvalidRead"
proof (induction h ptr n i cloud rule: PCLPointCloud_loop.induct)
  case (1 h ptr n i cloud)
  show ?case
  proof (cases "i < n")
    case False
    with "1.prems" show ?thesis by (simp add: loop_stop)
  next
    case lt: True
    show ?thesis
    proof (cases "coords h ptr i")
      case None
      with lt "1.prems" show ?thesis by (simp add: loop_fail)
    next
      case (Some p)
      then obtain a b c where abc: "load h ptr (3 * i) = Some a"
        "load h ptr (3 * i + 1) = Some b" "load h ptr (3 * i + 2) = Some c" "p = PointXYZ a b c"
        by (auto simp: coords_def split: option.splits)
      have "(PCLPointCloud_loop h ptr n (i + 1) (cloud[unat i := PointXYZ a b c])
          :: 'e failure + 'f PointCloud) = Inl e"
        using "1.prems" abc(4) by (simp add: loop_step [OF lt Some])
      then show ?thesis
        using "1.IH" [OF lt abc(1) abc(2) abc(3)] by simp
    qed
  qed
qed

subsection \<open>Lemmas on the constructor\<close>

lemma resize_empty:
  assumes "resize_throws lib [] n = None"
  shows "resize lib [] n = Inr (replicate (unat n) (PointXYZ 0 0 0))"
  using assms by (simp add: resize_def)

text \<open>The constructor ends with an exception exactly when one of its two library calls throws it.\<close>

lemma PCLPointCloud_Raised:
  fixes lib :: "('f::zero, 'd, 'e) pcl"
  shows "PCLPointCloud lib h ptr n = Inl (Raised e) \<longleftrightarrow>
    PointCloud_throws lib = Some e
    \<or> (PointCloud_throws lib = None \<and> resize_throws lib [] n = Some e)"
proof (cases "PointCloud_throws lib")
  case (Some e')
  then show ?thesis
    by (simp add: PCLPointCloud_def new_PointCloud_def call_def)
next
  case None
  show ?thesis
  proof (cases "resize_throws lib [] n")
    case (Some e')
    with None show ?thesis
      by (simp add: PCLPointCloud_def new_PointCloud_def resize_def call_def)
  next
    case none: None
    have "x = InvalidRead"
      if "(PCLPointCloud_loop h ptr n 0 (replicate (unat n) (PointXYZ 0 0 0))
        :: 'e failure + 'f PointCloud) = Inl x" for x
      using that by (rule loop_outcome)
    with None none show ?thesis
      by (auto simp: PCLPointCloud_def new_PointCloud_def resize_def call_def split: sum.splits)
  qed
qed

text \<open>When both calls return, the loop runs on a cloud of \<open>n\<close> default points.\<close>

lemma PCLPointCloud_made:
  assumes "PointCloud_throws lib = None" and "resize_throws lib [] n = None"
  shows "PCLPointCloud lib h ptr n =
    (case PCLPointCloud_loop h ptr n 0 (replicate (unat n) (PointXYZ 0 0 0)) of
       Inl e \<Rightarrow> Inl e
     | Inr cloud \<Rightarrow> Inr \<lparr>pcl_cloud = cloud, pcl_search = None\<rparr>)"
  using assms by (simp add: PCLPointCloud_def new_PointCloud_def resize_def call_def)

lemma PCLPointCloud_readable:
  fixes lib :: "('f::zero, 'd, 'e) pcl"
  assumes "PointCloud_throws lib = None" and "resize_throws lib [] n = None"
    and "readable h ptr n"
  shows "PCLPointCloud lib h ptr n = Inr \<lparr>pcl_cloud = points h ptr n, pcl_search = None\<rparr>"
proof -
  have "\<forall>j. 0 \<le> j \<and> j < n \<longrightarrow> coords h ptr j \<noteq> None"
    using assms(3) by (simp add: readable_def)
  then have "(PCLPointCloud_loop h ptr n 0 (replicate (unat n) (PointXYZ 0 0 0))
      :: 'e failure + 'f PointCloud)
      = Inr (take (unat (0::size_t)) (replicate (unat n) (PointXYZ 0 0 0)) @
          map (\<lambda>j. the (coords h ptr (of_nat j))) [unat (0::size_t)..<unat n])"
    by (rule loop_filled) simp_all
  then show ?thesis
    by (simp add: PCLPointCloud_made [OF assms(1,2)] points_def)
qed

lemma PCLPointCloud_unreadable:
  fixes lib :: "('f::zero, 'd, 'e) pcl"
  assumes "PointCloud_throws lib = None" and "resize_throws lib [] n = None"
    and "\<not> readable h ptr n"
  shows "PCLPointCloud lib h ptr n = Inl InvalidRead"
proof (cases "PCLPointCloud_loop h ptr n 0 (replicate (unat n) (PointXYZ 0 0 0))
    :: 'e failure + 'f PointCloud")
  case (Inl e)
  then show ?thesis
    using loop_outcome [OF Inl] by (simp add: PCLPointCloud_made [OF assms(1,2)])
next
  case (Inr c)
  have "readable h ptr n"
    unfolding readable_def using loop_Inr_readable [OF Inr] by simp
  with assms show ?thesis by simp
qed

lemma PCLPointCloud_Inr:
  assumes "PCLPointCloud lib h ptr n = Inr obj"
  shows "PointCloud_throws lib = None \<and> resize_throws lib [] n = None \<and> readable h ptr n
    \<and> obj = \<lparr>pcl_cloud = points h ptr n, pcl_search = None\<rparr>"
proof -
  have 1: "PointCloud_throws lib = None"
    using assms by (cases "PointCloud_throws lib")
      (simp_all add: PCLPointCloud_def new_PointCloud_def call_def)
  have 2: "resize_throws lib [] n = None"
    using assms 1 by (cases "resize_throws lib [] n")
      (simp_all add: PCLPointCloud_def new_PointCloud_def resize_def call_def)
  show ?thesis
  proof (cases "readable h ptr n")
    case True
    with assms 1 2 show ?thesis by (simp add: PCLPointCloud_readable)
  next
    case False
    with assms 1 2 show ?thesis by (simp add: PCLPointCloud_unreadable)
  qed
qed

lemma points_nth:
  assumes "i < n"
  shows "points h ptr n ! unat i = the (coords h ptr i)"
  using assms by (simp add: points_def word_less_nat_alt)

lemma length_points: "length (points h ptr n) = unat n"
  by (simp add: points_def)

lemma readable_code [code]:
  "readable h ptr n = list_all (\<lambda>j. coords h ptr (of_nat j) \<noteq> None) [0..<unat n]"
proof
  assume r: "readable h ptr n"
  have "coords h ptr (of_nat j) \<noteq> None" if "j < unat n" for j
  proof -
    have "unat (of_nat j :: size_t) = j"
      using that by (intro le_unat_uoi [of _ n]) simp
    with that have "(of_nat j :: size_t) < n"
      by (simp add: word_less_nat_alt)
    with r show ?thesis
      by (simp add: readable_def)
  qed
  then show "list_all (\<lambda>j. coords h ptr (of_nat j) \<noteq> None) [0..<unat n]"
    by (simp add: list_all_iff)
next
  assume l: "list_all (\<lambda>j. coords h ptr (of_nat j) \<noteq> None) [0..<unat n]"
  show "readable h ptr n"
    unfolding readable_def
  proof (intro allI impI)
    fix i assume "i < n"
    then have "unat i < unat n"
      by (simp add: word_less_nat_alt)
    with l have "coords h ptr (of_nat (unat i)) \<noteq> None"
      unfolding list_all_iff by (metis atLeastLessThan_iff le0 set_upt)
    then show "coords h ptr i \<noteq> None"
      by simp
  qed
qed

subsection \<open>Lemmas on library calls\<close>

lemma call_Inl [simp]: "call (Inl e) = Inl (Raised e)"
  by (simp add: call_def)

lemma call_Inr [simp]: "call (Inr v) = Inr v"
  by (simp add: call_def)

lemma call_eq_Inr [simp]: "call r = Inr v \<longleftrightarrow> r = Inr v"
  by (cases r) simp_all

lemma call_eq_Raised [simp]: "call r = Inl (Raised e) \<longleftrightarrow> r = Inl e"
  by (cases r) simp_all

lemma call_not_undefined [simp]: "call r \<noteq> Inl NullDereference" "call r \<noteq> Inl InvalidRead"
  by (cases r; simp)+

lemma call_eq_call [simp]: "call r = call r' \<longleftrightarrow> r = r'"
  by (cases r; cases r') simp_all

lemma setInputCloud_Inr [simp]:
  "setInputCloud lib s c = Inr s' \<longleftrightarrow> setInputCloud_throws lib s c = None \<and> s' = s\<lparr>input_cloud := Some c\<rparr>"
  by (auto simp: setInputCloud_def split: option.splits)

lemma setInputCloud_Inl [simp]:
  "setInputCloud lib s c = Inl e \<longleftrightarrow> setInputCloud_throws lib s c = Some e"
  by (auto simp: setInputCloud_def split: option.splits)

subsection \<open>Lemmas on the operations of PCLPointCloud\<close>

lemma PCL_build_tree_kdtree:
  "PCL_build_tree lib obj kdtree =
    (case call (setInputCloud lib \<lparr>search_class = KdTree, input_cloud = None\<rparr> (pcl_cloud obj)) of
       Inl e \<Rightarrow> Inl e | Inr s \<Rightarrow> Inr (obj\<lparr>pcl_search := Some s\<rparr>))"
  by (simp add: PCL_build_tree_def PCL_build_tree_reset_def)

lemma PCL_build_tree_octree:
  "PCL_build_tree lib obj octree =
    (case call (setInputCloud lib \<lparr>search_class = Octree 128, input_cloud = None\<rparr> (pcl_cloud obj)) of
       Inl e \<Rightarrow> Inl e | Inr s \<Rightarrow> Inr (obj\<lparr>pcl_search := Some s\<rparr>))"
  by (simp add: PCL_build_tree_def PCL_build_tree_reset_def)

lemma PCL_build_tree_bruteforce:
  "PCL_build_tree lib obj bruteforce =
    (case call (setInputCloud lib \<lparr>search_class = BruteForce, input_cloud = None\<rparr> (pcl_cloud obj)) of
       Inl e \<Rightarrow> Inl e | Inr s \<Rightarrow> Inr (obj\<lparr>pcl_search := Some s\<rparr>))"
  by (simp add: PCL_build_tree_def PCL_build_tree_reset_def)

lemma PCL_build_tree_unlisted:
  "PCL_build_tree lib obj (unlisted v) =
    (case pcl_search obj of
       None \<Rightarrow> Inl NullDereference
     | Some s0 \<Rightarrow>
        (case call (setInputCloud lib s0 (pcl_cloud obj)) of
           Inl e \<Rightarrow> Inl e | Inr s \<Rightarrow> Inr (obj\<lparr>pcl_search := Some s\<rparr>)))"
  by (simp add: PCL_build_tree_def PCL_build_tree_reset_def)

lemmas PCL_build_tree_cases =
  PCL_build_tree_kdtree PCL_build_tree_octree PCL_build_tree_bruteforce PCL_build_tree_unlisted

lemma PCL_build_tree_Inr_search:
  assumes "PCL_build_tree lib obj strategy = Inr obj'"
  shows "\<exists>s. pcl_search obj' = Some s \<and> input_cloud s = Some (pcl_cloud obj)
    \<and> pcl_cloud obj' = pcl_cloud obj"
  using assms
  by (cases strategy) (auto simp: PCL_build_tree_cases split: sum.splits option.splits)


lemma PCL_radius_search_built:
  assumes "pcl_search obj = Some s"
  shows "PCL_radius_search lib obj p r indices dist = call (radiusSearch lib s p r indices dist)"
  using assms by (simp add: PCL_radius_search_def)


lemma word_of_nat_less:
  assumes "j < unat (n :: size_t)"
  shows "(of_nat j :: size_t) < n"
proof -
  have "unat (of_nat j :: size_t) = j"
    using assms by (intro le_unat_uoi [of _ n]) simp
  with assms show ?thesis
    by (simp add: word_less_nat_alt)
qed

lemma coords_cong:
  assumes "agree_on (cells ptr n) h h2" and "i < n"
  shows "coords h ptr i = coords h2 ptr i"
proof -
  have "{ptr + unat (3 * i), ptr + unat (3 * i + 1), ptr + unat (3 * i + 2)} \<subseteq> cells ptr n"
    using assms(2) unfolding cells_def by blast
  with assms(1) have "load h ptr (3 * i) = load h2 ptr (3 * i)"
    "load h ptr (3 * i + 1) = load h2 ptr (3 * i + 1)"
    "load h ptr (3 * i + 2) = load h2 ptr (3 * i + 2)"
    by (simp_all add: load_def agree_on_def)
  then show ?thesis
    by (simp only: coords_def)
qed

lemma PCLPointCloud_cong:
  assumes "agree_on (cells ptr n) h h2"
  shows "PCLPointCloud lib h ptr n = PCLPointCloud lib h2 ptr n"
proof (cases "PointCloud_throws lib = None \<and> resize_throws lib [] n = None")
  case True
  have r: "readable h ptr n \<longleftrightarrow> readable h2 ptr n"
    using coords_cong [OF assms] by (simp add: readable_def)
  have "points h ptr n = points h2 ptr n"
    using coords_cong [OF assms] by (simp add: points_def word_of_nat_less)
  with r True show ?thesis
    by (cases "readable h ptr n") (simp_all add: PCLPointCloud_readable PCLPointCloud_unreadable)
next
  case False
  then show ?thesis
    by (cases "PointCloud_throws lib"; cases "resize_throws lib [] n")
      (simp_all add: PCLPointCloud_def new_PointCloud_def resize_def call_def)
qed



subsection \<open>Lemmas on the operations of NFPointCloud2\<close>

lemma NF_radius_search_built:
  assumes "nf_search obj = Some idx"
  shows "NF_radius_search to_float lib h obj query radius result =
    call (nf_radiusSearch lib h idx query (to_float (radius * radius)) result (SearchParams lib))"
  using assms by (simp add: NF_radius_search_def)


lemma NF_build_tree_Inr:
  "NF_build_tree lib h obj leaf = Inr obj' \<longleftrightarrow>
    (\<exists>idx idx'. KDTree lib h 3 (nf_data obj, nf_n obj) leaf = Inr idx
       \<and> buildIndex lib h idx = Inr idx' \<and> obj' = obj\<lparr>nf_search := Some idx'\<rparr>)"
  by (auto simp: NF_build_tree_def split: sum.splits)



subsection \<open>The examples, evaluated\<close>

lemma stub_pcl_PointCloud_throws: "PointCloud_throws stub_pcl = None"
  by (simp add: stub_pcl_def)

lemma stub_pcl_resize_throws:
  "resize_throws stub_pcl c n = (if 2 ^ 59 < n then Some ''length_error'' else None)"
  by (simp add: stub_pcl_def)

lemma stub_pcl_setInputCloud_throws:
  "setInputCloud_throws stub_pcl s c = (if c = [] then Some ''empty cloud'' else None)"
  by (simp add: stub_pcl_def)

lemma stub_pcl_setInputCloud_leaves: "setInputCloud_leaves stub_pcl s c = s"
  by (simp add: stub_pcl_def)

lemma example_fresh_constructed:
  "PCLPointCloud stub_pcl example_heap 0 3 = Inr example_fresh"
  by code_simp

lemma example_empty_constructed:
  "PCLPointCloud stub_pcl example_heap 0 0 = Inr example_empty"
  by code_simp

lemma example_points: "points example_heap 0 3 = example_cloud"
  by code_simp

lemma example_built_search:
  "pcl_search (example_built cls) = Some (example_search cls)"
  by (simp add: example_built_def)

lemma example_pcl_built:
  "PCL_build_tree stub_pcl example_fresh kdtree = Inr (example_built KdTree)"
  by code_simp

lemma example_nf_built:
  "NF_build_tree stub_nanoflann example_heap (NFPointCloud2 0 3) 10 = Inr example_nf"
  by code_simp


lemma stub_search_example:
  "radiusSearch stub_pcl (example_search cls) (PointXYZ 1 0 0) 2 indices dist = Inr (2, [0, 1], [1, 4])"
  by (simp add: stub_pcl_def example_search_def example_cloud_def within_def)

lemma stub_search_negative:
  "radiusSearch stub_pcl (example_search cls) p (- 1) indices dist = Inl ''negative radius''"
  by (simp add: stub_pcl_def example_search_def)

lemma excess_bits_small: "excess_bits 4 = 0"
  by (simp add: excess_bits.simps)


lemma stub_to_float_small: "stub_to_float 4 = 4"
  by (simp add: stub_to_float_def excess_bits_small)







lemma cells_example: "a \<in> cells 0 3 \<Longrightarrow> a < 9"
proof -
  assume "a \<in> cells 0 3"
  then obtain i :: size_t where i: "i < 3"
    and a: "a = unat (3 * i) \<or> a = unat (3 * i + 1) \<or> a = unat (3 * i + 2)"
    by (auto simp: cells_def)
  from i have "i = 0 \<or> i = 1 \<or> i = 2"
    by (auto simp: word_less_nat_alt word_unat_eq_iff)
  with a show ?thesis
    by auto
qed

section \<open>Properties\<close>




text \<open>
  C2. When the buffer at \<open>ptr\<close> holds \<open>n\<close> points, the constructor of \<^verbatim>\<open>PCLPointCloud\<close>
  converts it into the library's point container: when the library makes the cloud (its
  \<^verbatim>\<open>new\<close> and \<^verbatim>\<open>resize(n)\<close> return), the constructor returns an object whose cloud has
  exactly \<open>n\<close> points, and for every \<open>i < n\<close> point \<open>i\<close> of the cloud has the coordinates
  \<^verbatim>\<open>ptr[3*i]\<close>, \<^verbatim>\<open>ptr[3*i+1]\<close>, \<^verbatim>\<open>ptr[3*i+2]\<close> (indices computed in \<^verbatim>\<open>std::size_t\<close>);
  when one of the two calls throws, its exception leaves the constructor and there is no
  object.
\<close>

theorem PCLPointCloud_converts_buffer:
  fixes lib :: "('f::zero, 'd, 'e) pcl"
  assumes "readable h ptr n"
  shows "(PointCloud_throws lib = None \<and> resize_throws lib [] n = None \<longrightarrow>
      (\<exists>obj. PCLPointCloud lib h ptr n = Inr obj
        \<and> length (pcl_cloud obj) = unat n
        \<and> (\<forall>i<n. coords h ptr i = Some (pcl_cloud obj ! unat i))))
    \<and> (\<forall>e. PointCloud_throws lib = Some e
          \<or> (PointCloud_throws lib = None \<and> resize_throws lib [] n = Some e)
        \<longrightarrow> PCLPointCloud lib h ptr n = Inl (Raised e))"
proof (intro conjI impI allI)
  assume made: "PointCloud_throws lib = None \<and> resize_throws lib [] n = None"
  have "\<forall>i<n. coords h ptr i = Some (points h ptr n ! unat i)"
    using assms by (auto simp: readable_def points_nth)
  then show "\<exists>obj. PCLPointCloud lib h ptr n = Inr obj
      \<and> length (pcl_cloud obj) = unat n
      \<and> (\<forall>i<n. coords h ptr i = Some (pcl_cloud obj ! unat i))"
    using made by (simp add: PCLPointCloud_readable [OF _ _ assms] length_points)
next
  fix e
  assume "PointCloud_throws lib = Some e
      \<or> (PointCloud_throws lib = None \<and> resize_throws lib [] n = Some e)"
  then show "PCLPointCloud lib h ptr n = Inl (Raised e)"
    by (simp add: PCLPointCloud_Raised)
qed

text \<open>
  The example memory holds three points at address 0 and the stand-in library makes the
  cloud; the constructor returns the cloud of these three points.
\<close>

theorem PCLPointCloud_converts_buffer_witness:
  "readable example_heap 0 3
   \<and> PointCloud_throws stub_pcl = None \<and> resize_throws stub_pcl [] 3 = None
   \<and> (\<exists>obj. PCLPointCloud stub_pcl example_heap 0 3 = Inr obj
      \<and> pcl_cloud obj = [PointXYZ 0 0 0, PointXYZ 3 0 0, PointXYZ 0 5 0])"
proof -
  have r: "readable example_heap 0 3"
    by code_simp
  have made: "PointCloud_throws stub_pcl = None \<and> resize_throws stub_pcl [] 3 = None"
    by (simp add: stub_pcl_PointCloud_throws stub_pcl_resize_throws)
  from PCLPointCloud_converts_buffer [OF r, of stub_pcl] made
  obtain obj :: "(int, int) PCLPointCloud"
    where ret: "PCLPointCloud stub_pcl example_heap 0 3 = Inr obj"
      and len: "length (pcl_cloud obj) = unat (3 :: size_t)"
      and pts: "\<forall>i<3. coords example_heap 0 i = Some (pcl_cloud obj ! unat i)"
    by blast
  have "coords example_heap 0 0 = Some (pcl_cloud obj ! unat (0 :: size_t))"
    "coords example_heap 0 1 = Some (pcl_cloud obj ! unat (1 :: size_t))"
    "coords example_heap 0 2 = Some (pcl_cloud obj ! unat (2 :: size_t))"
    using pts by simp_all
  then have "pcl_cloud obj ! 0 = PointXYZ 0 0 0" "pcl_cloud obj ! 1 = PointXYZ 3 0 0"
    "pcl_cloud obj ! 2 = PointXYZ 0 5 0"
    by (simp_all add: coords_def load_def example_heap_def)
  moreover from len have "length (pcl_cloud obj) = Suc (Suc (Suc 0))"
    by simp
  then obtain a b c where "pcl_cloud obj = [a, b, c]"
    by (auto simp: length_Suc_conv)
  ultimately have "pcl_cloud obj = [PointXYZ 0 0 0, PointXYZ 3 0 0, PointXYZ 0 5 0]"
    by simp
  with r made ret show ?thesis by blast
qed

text \<open>
  C3. \<^verbatim>\<open>PCLPointCloud::radius_search\<close> is a pure pass-through: on an adapter whose search
  object is \<open>s\<close>, it returns an integer and leaves contents in the two vectors exactly when
  \<^verbatim>\<open>radiusSearch\<close> of \<open>s\<close>, called with the same query point, radius and vectors, returns
  that integer and leaves those contents; and it fails exactly when that call throws, with
  the exception thrown.
\<close>

theorem PCL_radius_search_pass_through:
  assumes "pcl_search obj = Some s"
  shows "(\<forall>k indices' dist'.
        PCL_radius_search lib obj p r indices dist = Inr (k, indices', dist')
        \<longleftrightarrow> radiusSearch lib s p r indices dist = Inr (k, indices', dist'))
    \<and> (\<forall>f. PCL_radius_search lib obj p r indices dist = Inl f
        \<longleftrightarrow> (\<exists>e. f = Raised e \<and> radiusSearch lib s p r indices dist = Inl e))"
proof -
  have eq: "PCL_radius_search lib obj p r indices dist = call (radiusSearch lib s p r indices dist)"
    using assms by (rule PCL_radius_search_built)
  show ?thesis
    unfolding eq by (cases "radiusSearch lib s p r indices dist") auto
qed

text \<open>
  On the example the adapter returns what the stand-in library returns, whatever the
  vectors held before, and the exception the stand-in throws at a negative radius passes
  through.
\<close>

theorem PCL_radius_search_pass_through_witness:
  "pcl_search (example_built BruteForce) = Some (example_search BruteForce)
   \<and> radiusSearch stub_pcl (example_search BruteForce) (PointXYZ 1 0 0) 2 [7] [8]
       = Inr (2, [0, 1], [1, 4])
   \<and> PCL_radius_search stub_pcl (example_built BruteForce) (PointXYZ 1 0 0) 2 [7] [8]
       = Inr (2, [0, 1], [1, 4])
   \<and> radiusSearch stub_pcl (example_search BruteForce) (PointXYZ 1 0 0) (- 1) [7] [8]
       = Inl ''negative radius''
   \<and> PCL_radius_search stub_pcl (example_built BruteForce) (PointXYZ 1 0 0) (- 1) [7] [8]
       = Inl (Raised ''negative radius'')"
proof -
  have b: "pcl_search (example_built BruteForce) = Some (example_search BruteForce)"
    by (rule example_built_search)
  have lib: "radiusSearch stub_pcl (example_search BruteForce) (PointXYZ 1 0 0) 2 [7] [8]
       = Inr (2, [0, 1], [1, 4])"
    by (rule stub_search_example)
  have exn: "radiusSearch stub_pcl (example_search BruteForce) (PointXYZ 1 0 0) (- 1) [7] [8]
       = Inl ''negative radius''"
    by (rule stub_search_negative)
  from PCL_radius_search_pass_through [OF b, of stub_pcl "PointXYZ 1 0 0" 2 "[7]" "[8]"] lib
  have 1: "PCL_radius_search stub_pcl (example_built BruteForce) (PointXYZ 1 0 0) 2 [7] [8]
       = Inr (2, [0, 1], [1, 4])"
    by blast
  from PCL_radius_search_pass_through [OF b, of stub_pcl "PointXYZ 1 0 0" "- 1" "[7]" "[8]"] exn
  have 2: "PCL_radius_search stub_pcl (example_built BruteForce) (PointXYZ 1 0 0) (- 1) [7] [8]
       = Inl (Raised ''negative radius'')"
    by blast
  from b lib 1 exn 2 show ?thesis
    by (intro conjI)
qed

text \<open>
  C4. For each of the enumerators \<^verbatim>\<open>kdtree\<close>, \<^verbatim>\<open>octree\<close> and \<^verbatim>\<open>bruteforce\<close>,
  \<^verbatim>\<open>PCLPointCloud::build_tree\<close> makes a new search object of the corresponding class (a
  \<^verbatim>\<open>KdTree\<close>, an \<^verbatim>\<open>Octree\<close> of resolution 128.0, a \<^verbatim>\<open>BruteForce\<close>), whatever the adapter
  held before, gives it the stored cloud as input cloud and stores it; when
  \<^verbatim>\<open>setInputCloud\<close> throws, the exception leaves \<^verbatim>\<open>build_tree\<close>.
\<close>

theorem PCL_build_tree_selects:
  "PCL_build_tree lib obj kdtree =
     (case setInputCloud_throws lib \<lparr>search_class = KdTree, input_cloud = None\<rparr> (pcl_cloud obj) of
        Some e \<Rightarrow> Inl (Raised e)
      | None \<Rightarrow> Inr (obj\<lparr>pcl_search :=
          Some \<lparr>search_class = KdTree, input_cloud = Some (pcl_cloud obj)\<rparr>\<rparr>))
   \<and> PCL_build_tree lib obj octree =
     (case setInputCloud_throws lib \<lparr>search_class = Octree 128, input_cloud = None\<rparr> (pcl_cloud obj) of
        Some e \<Rightarrow> Inl (Raised e)
      | None \<Rightarrow> Inr (obj\<lparr>pcl_search :=
          Some \<lparr>search_class = Octree 128, input_cloud = Some (pcl_cloud obj)\<rparr>\<rparr>))
   \<and> PCL_build_tree lib obj bruteforce =
     (case setInputCloud_throws lib \<lparr>search_class = BruteForce, input_cloud = None\<rparr> (pcl_cloud obj) of
        Some e \<Rightarrow> Inl (Raised e)
      | None \<Rightarrow> Inr (obj\<lparr>pcl_search :=
          Some \<lparr>search_class = BruteForce, input_cloud = Some (pcl_cloud obj)\<rparr>\<rparr>))"
  by (simp add: PCL_build_tree_cases setInputCloud_def split: option.splits)

text \<open>
  On the example: a first \<^verbatim>\<open>build_tree\<close>, a second one that replaces the search object
  of the first, and one on the adapter of an empty cloud, where the stand-in's
  \<^verbatim>\<open>setInputCloud\<close> throws.
\<close>

theorem PCL_build_tree_selects_witness:
  "PCL_build_tree stub_pcl example_fresh kdtree = Inr (example_built KdTree)
   \<and> PCL_build_tree stub_pcl (example_built KdTree) octree = Inr (example_built (Octree 128))
   \<and> PCL_build_tree stub_pcl example_fresh bruteforce = Inr (example_built BruteForce)
   \<and> PCLPointCloud stub_pcl example_heap 0 0
       = Inr example_empty
   \<and> PCL_build_tree stub_pcl example_empty octree = Inl (Raised ''empty cloud'')"
  using PCL_build_tree_selects [of stub_pcl example_fresh]
    PCL_build_tree_selects [of stub_pcl "example_built KdTree"]
    PCL_build_tree_selects [of stub_pcl example_empty]
  by (simp add: stub_pcl_setInputCloud_throws example_fresh_def example_built_def
      example_search_def example_cloud_def example_empty_def
      example_empty_constructed [unfolded example_empty_def])





text \<open>
  C7. \<^verbatim>\<open>PCLPointCloud::build_tree\<close> dereferences \<^verbatim>\<open>_search\<close> without a check. The
  dereference is one of a null pointer exactly when the strategy is none of the three
  enumerators and no search object was stored before; in particular on the object the
  constructor returns, with a strategy value outside the enumeration.
\<close>

theorem PCL_build_tree_null_dereference:
  fixes lib :: "('f::zero, 'd::numeral, 'e) pcl"
  shows "(PCL_build_tree lib obj strategy = Inl NullDereference
      \<longleftrightarrow> strategy \<notin> {kdtree, octree, bruteforce} \<and> pcl_search obj = None)
    \<and> (PCLPointCloud lib h ptr n = Inr fresh
      \<longrightarrow> PCL_build_tree lib fresh (unlisted v) = Inl NullDereference)"
proof (intro conjI impI)
  show "PCL_build_tree lib obj strategy = Inl NullDereference
      \<longleftrightarrow> strategy \<notin> {kdtree, octree, bruteforce} \<and> pcl_search obj = None"
    by (cases strategy) (auto simp: PCL_build_tree_cases split: sum.splits option.splits)
next
  assume "PCLPointCloud lib h ptr n = Inr fresh"
  then have "pcl_search fresh = None"
    by (auto dest: PCLPointCloud_Inr)
  then show "PCL_build_tree lib fresh (unlisted v) = Inl NullDereference"
    by (simp add: PCL_build_tree_unlisted)
qed

text \<open>
  On the example: the null dereference on the fresh adapter with the unlisted value 7,
  and none with an enumerator or on an adapter that already holds a search object.
\<close>

theorem PCL_build_tree_null_dereference_witness:
  "PCLPointCloud stub_pcl example_heap 0 3 = Inr example_fresh
   \<and> PCL_build_tree stub_pcl example_fresh (unlisted 7) = Inl NullDereference
   \<and> PCL_build_tree stub_pcl example_fresh kdtree \<noteq> Inl NullDereference
   \<and> PCL_build_tree stub_pcl (example_built KdTree) (unlisted 7) \<noteq> Inl NullDereference"
  using PCL_build_tree_null_dereference [where lib = stub_pcl and obj = example_fresh and strategy = "unlisted 7"
      and h = example_heap and ptr = 0 and n = 3 and fresh = example_fresh and v = 7]
    PCL_build_tree_null_dereference [where lib = stub_pcl and obj = example_fresh and strategy = kdtree
      and h = example_heap and ptr = 0 and n = 3 and fresh = example_fresh and v = 7]
    PCL_build_tree_null_dereference [where lib = stub_pcl and obj = "example_built KdTree" and strategy = "unlisted 7"
      and h = example_heap and ptr = 0 and n = 3 and fresh = example_fresh and v = 7]
    example_fresh_constructed
  by (simp add: example_fresh_def example_built_def)




text \<open>
  C9. The two adapters differ in who owns the coordinates. The constructor of
  \<^verbatim>\<open>PCLPointCloud\<close> copies them: its result is the same for two memories that agree on the
  cells of the buffer, and every search after \<^verbatim>\<open>build_tree\<close> is the library's search on a
  search object whose input cloud holds the points the buffer had at construction (the
  later operations take no memory at all). The constructor of \<^verbatim>\<open>NFPointCloud2\<close> stores
  the pointer and the count only, and every search hands the library the memory as it is
  at the time of the search: the adapter's results for two memories differ exactly when
  the library's do.
\<close>

theorem buffer_ownership:
  fixes plib :: "('f::zero, 'd::{numeral,times}, 'e) pcl" and to_float :: "'d \<Rightarrow> 'f"
    and nlib :: "('f, 'd, 'e, 'idx, 'p) nanoflann"
  shows "(agree_on (cells ptr n) h h2 \<longrightarrow>
        PCLPointCloud plib h ptr n = PCLPointCloud plib h2 ptr n)
    \<and> (PCLPointCloud plib h ptr n = Inr pobj
        \<and> PCL_build_tree plib pobj strategy = Inr pobj' \<longrightarrow>
        (\<exists>s. pcl_search pobj' = Some s \<and> input_cloud s = Some (points h ptr n)
           \<and> PCL_radius_search plib pobj' p r indices dist = call (radiusSearch plib s p r indices dist)))
    \<and> (NFPointCloud2 ptr n :: 'idx NFPointCloud2) = \<lparr>nf_data = ptr, nf_n = n, nf_search = None\<rparr>
    \<and> (NF_build_tree nlib h (NFPointCloud2 ptr n) leaf = Inr nobj \<longrightarrow>
        (\<exists>idx. nf_search nobj = Some idx \<and> nf_data nobj = ptr \<and> nf_n nobj = n \<and>
          (\<forall>h'. NF_radius_search to_float nlib h' nobj query radius result =
            call (nf_radiusSearch nlib h' idx query (to_float (radius * radius)) result (SearchParams nlib)))))
    \<and> (nf_search nobj' = Some idx' \<longrightarrow>
        (NF_radius_search to_float nlib h nobj' query radius result
           = NF_radius_search to_float nlib h2 nobj' query radius result
         \<longleftrightarrow> nf_radiusSearch nlib h idx' query (to_float (radius * radius)) result (SearchParams nlib)
           = nf_radiusSearch nlib h2 idx' query (to_float (radius * radius)) result (SearchParams nlib)))"
proof (intro conjI impI)
  assume "agree_on (cells ptr n) h h2"
  then show "PCLPointCloud plib h ptr n = PCLPointCloud plib h2 ptr n"
    by (rule PCLPointCloud_cong)
next
  assume a: "PCLPointCloud plib h ptr n = Inr pobj
        \<and> PCL_build_tree plib pobj strategy = Inr pobj'"
  then have "pcl_cloud pobj = points h ptr n"
    by (auto dest: PCLPointCloud_Inr)
  moreover from a obtain s where "pcl_search pobj' = Some s" "input_cloud s = Some (pcl_cloud pobj)"
    by (auto dest: PCL_build_tree_Inr_search)
  ultimately show "\<exists>s. pcl_search pobj' = Some s \<and> input_cloud s = Some (points h ptr n)
      \<and> PCL_radius_search plib pobj' p r indices dist = call (radiusSearch plib s p r indices dist)"
    by (auto simp: PCL_radius_search_built)
next
  show "(NFPointCloud2 ptr n :: 'idx NFPointCloud2) = \<lparr>nf_data = ptr, nf_n = n, nf_search = None\<rparr>"
    by (simp add: NFPointCloud2_def)
next
  assume "NF_build_tree nlib h (NFPointCloud2 ptr n) leaf = Inr nobj"
  then obtain idx where "nf_search nobj = Some idx" "nf_data nobj = ptr" "nf_n nobj = n"
    by (auto simp: NF_build_tree_Inr NFPointCloud2_def)
  then show "\<exists>idx. nf_search nobj = Some idx \<and> nf_data nobj = ptr \<and> nf_n nobj = n \<and>
      (\<forall>h'. NF_radius_search to_float nlib h' nobj query radius result =
        call (nf_radiusSearch nlib h' idx query (to_float (radius * radius)) result (SearchParams nlib)))"
    by (auto simp: NF_radius_search_built)
next
  assume "nf_search nobj' = Some idx'"
  then show "NF_radius_search to_float nlib h nobj' query radius result
           = NF_radius_search to_float nlib h2 nobj' query radius result
         \<longleftrightarrow> nf_radiusSearch nlib h idx' query (to_float (radius * radius)) result (SearchParams nlib)
           = nf_radiusSearch nlib h2 idx' query (to_float (radius * radius)) result (SearchParams nlib)"
    by (simp add: NF_radius_search_built)
qed

text \<open>
  On the example: a write outside the buffer does not change what the PCL constructor
  returns; the PCL adapter searches the three points it copied and finds two neighbours;
  and the nanoflann adapter built over the same buffer finds two neighbours before the
  caller overwrites cell 3 and one after.
\<close>

theorem buffer_ownership_witness:
  "agree_on (cells 0 3) example_heap (example_heap(20 \<mapsto> 1))
   \<and> PCLPointCloud stub_pcl example_heap 0 3
       = PCLPointCloud stub_pcl (example_heap(20 \<mapsto> 1)) 0 3
   \<and> PCLPointCloud stub_pcl example_heap 0 3 = Inr example_fresh
   \<and> PCL_build_tree stub_pcl example_fresh kdtree = Inr (example_built KdTree)
   \<and> points example_heap 0 3 = example_cloud
   \<and> PCL_radius_search stub_pcl (example_built KdTree) (PointXYZ 1 0 0) 2 [] []
       = Inr (2, [0, 1], [1, 4])
   \<and> NF_build_tree stub_nanoflann example_heap (NFPointCloud2 0 3) 10 = Inr example_nf
   \<and> NF_radius_search stub_to_float stub_nanoflann example_heap example_nf 9 2 [] = Inr (2, [(0, 1), (1, 4)])
   \<and> NF_radius_search stub_to_float stub_nanoflann (example_heap(3 \<mapsto> 30)) example_nf 9 2 [] = Inr (1, [(0, 1)])
   \<and> NF_radius_search stub_to_float stub_nanoflann example_heap example_nf 9 2 []
       \<noteq> NF_radius_search stub_to_float stub_nanoflann (example_heap(3 \<mapsto> 30)) example_nf 9 2 []"
proof -
  have agree: "agree_on (cells 0 3) example_heap (example_heap(20 \<mapsto> 1))"
    by (auto simp: agree_on_def dest: cells_example)
  have lib0: "nf_radiusSearch stub_nanoflann example_heap (0, 3) 9 4 [] () = Inr (2, [(0, 1), (1, 4)])"
    "nf_radiusSearch stub_nanoflann (example_heap(3 \<mapsto> 30)) (0, 3) 9 4 [] () = Inr (1, [(0, 1)])"
    by code_simp+
  have lib: "nf_radiusSearch stub_nanoflann example_heap (0, 3) 9 (stub_to_float (2 * 2)) []
      (SearchParams stub_nanoflann) = Inr (2, [(0, 1), (1, 4)])"
    "nf_radiusSearch stub_nanoflann (example_heap(3 \<mapsto> 30)) (0, 3) 9 (stub_to_float (2 * 2)) []
      (SearchParams stub_nanoflann) = Inr (1, [(0, 1)])"
    using lib0 by (simp_all add: stub_to_float_small)
  have nf: "nf_search example_nf = Some (0, 3)"
    by (simp add: example_nf_def)
  note t = buffer_ownership [where h = example_heap and ptr = 0 and n = 3 and plib = stub_pcl
      and nlib = stub_nanoflann and to_float = stub_to_float and pobj = example_fresh and strategy = kdtree
      and pobj' = "example_built KdTree" and p = "PointXYZ 1 0 0" and r = 2
      and indices = "[]" and dist = "[]" and leaf = 10 and nobj = example_nf
      and query = 9 and radius = 2 and result = "[]" and nobj' = example_nf and idx' = "(0, 3)"]
  have 1: "PCLPointCloud stub_pcl example_heap 0 3
       = PCLPointCloud stub_pcl (example_heap(20 \<mapsto> 1)) 0 3"
    using t [where ?h2.0 = "example_heap(20 \<mapsto> 1)", THEN conjunct1] agree by (rule mp)
  from t [THEN conjunct2, THEN conjunct1] example_fresh_constructed example_pcl_built
  obtain s where s: "pcl_search (example_built KdTree) = Some s"
      "input_cloud s = Some (points example_heap 0 3)"
      "PCL_radius_search stub_pcl (example_built KdTree) (PointXYZ 1 0 0) 2 [] []
        = call (radiusSearch stub_pcl s (PointXYZ 1 0 0) 2 [] [])"
    by blast
  from s(1) have "s = example_search KdTree"
    by (simp add: example_built_search)
  with s(3) have 2: "PCL_radius_search stub_pcl (example_built KdTree) (PointXYZ 1 0 0) 2 [] []
       = Inr (2, [0, 1], [1, 4])"
    by (simp add: stub_search_example)
  from t [THEN conjunct2, THEN conjunct2, THEN conjunct2, THEN conjunct1] example_nf_built
  obtain idx where idx: "nf_search example_nf = Some idx"
    "\<And>h'. NF_radius_search stub_to_float stub_nanoflann h' example_nf 9 2 [] =
      call (nf_radiusSearch stub_nanoflann h' idx 9 (stub_to_float (2 * 2)) []
        (SearchParams stub_nanoflann))"
    by blast
  from idx(1) nf have "idx = (0, 3)"
    by simp
  with idx(2) lib
  have 3: "NF_radius_search stub_to_float stub_nanoflann example_heap example_nf 9 2 [] = Inr (2, [(0, 1), (1, 4)])"
    "NF_radius_search stub_to_float stub_nanoflann (example_heap(3 \<mapsto> 30)) example_nf 9 2 [] = Inr (1, [(0, 1)])"
    by simp_all
  have 4: "NF_radius_search stub_to_float stub_nanoflann example_heap example_nf 9 2 []
       \<noteq> NF_radius_search stub_to_float stub_nanoflann (example_heap(3 \<mapsto> 30)) example_nf 9 2 []"
    using t [where ?h2.0 = "example_heap(3 \<mapsto> 30)", THEN conjunct2, THEN conjunct2,
        THEN conjunct2, THEN conjunct2] nf
    by (simp only: lib) simp
  from agree 1 example_fresh_constructed example_pcl_built example_points 2 example_nf_built 3 4
  show ?thesis
    by (intro conjI)
qed

end
